theory Spec2Isabelle
  imports Main
begin

section \<open>Values, exceptions and responses\<close>

text \<open>
  Values that travel in a request: a JSON body value, a query parameter or the
  primary key captured from the URL is a string or an integer.
\<close>

datatype pyval = PyStr string | PyInt int

datatype json =
    JNull
  | JBool bool
  | JInt int
  | JStr string
  | JArr "json list"
  | JObj "(string \<times> json) list"

fun json_of :: "pyval \<Rightarrow> json" where
  "json_of (PyStr s) = JStr s"
| "json_of (PyInt n) = JInt n"

text \<open>
  The exceptions the handlers of \<^verbatim>\<open>event.py\<close> meet. \<open>DoesNotExist\<close> and
  \<open>MultipleObjectsReturned\<close> carry the name of the model class they belong to
  (\<^verbatim>\<open>Event.DoesNotExist\<close> is a class of its own, distinct from
  \<^verbatim>\<open>Gamer.DoesNotExist\<close>). \<open>OtherError\<close> stands for any other exception the
  store raises, with its message. Every exception is constructed with its message
  as first argument, which is what \<^verbatim>\<open>ex.args[0]\<close> reads.
\<close>

datatype exn =
    DoesNotExist string
  | MultipleObjectsReturned string nat
  | ValidationError string
  | ValueError string
  | KeyError string
  | AttributeError string string
  | OtherError string

definition quote :: string where
  "quote = [CHR 0x27]"

definition digit_char :: "nat \<Rightarrow> char" where
  "digit_char d = char_of (48 + d)"

function show_nat :: "nat \<Rightarrow> string" where
  "show_nat n = (if n < 10 then [digit_char n] else show_nat (n div 10) @ [digit_char (n mod 10)])"
  by pat_completeness auto
termination
  by (relation "measure (\<lambda>n. n)") auto

text \<open>\<^verbatim>\<open>ex.args[0]\<close>: the message the exception was constructed with.\<close>

fun args0 :: "exn \<Rightarrow> string" where
  "args0 (DoesNotExist m) = m @ '' matching query does not exist.''"
| "args0 (MultipleObjectsReturned m n) =
     ''get() returned more than one '' @ m @ '' -- it returned '' @ show_nat n @ ''!''"
| "args0 (ValidationError msg) = msg"
| "args0 (ValueError msg) = msg"
| "args0 (KeyError k) = k"
| "args0 (AttributeError cls a) =
     quote @ cls @ quote @ '' object has no attribute '' @ quote @ a @ quote"
| "args0 (OtherError msg) = msg"

text \<open>\<^verbatim>\<open>str(ex)\<close>: the single argument, which a \<open>KeyError\<close> shows quoted.\<close>

fun str_exn :: "exn \<Rightarrow> string" where
  "str_exn (KeyError k) = quote @ k @ quote"
| "str_exn ex = args0 ex"

text \<open>
  A response has a status and a body. \<^verbatim>\<open>Response(data, status)\<close> carries data to
  be rendered as JSON; \<^verbatim>\<open>HttpResponseServerError(ex)\<close> carries the text of the
  exception. The status is whatever value the handler passes.
\<close>

datatype body = Data json | Content string

record response =
  status_code :: pyval
  body :: body

text \<open>The constants of the module \<^verbatim>\<open>rest_framework.status\<close> the handlers name.\<close>

definition HTTP_200_OK :: pyval where
  "HTTP_200_OK = PyInt 200"

definition HTTP_201_CREATED :: pyval where
  "HTTP_201_CREATED = PyInt 201"

definition HTTP_204_NO_CONTENT :: pyval where
  "HTTP_204_NO_CONTENT = PyInt 204"

definition HTTP_400_BAD_REQUEST :: pyval where
  "HTTP_400_BAD_REQUEST = PyInt 400"

definition HTTP_404_NOT_FOUND :: pyval where
  "HTTP_404_NOT_FOUND = PyInt 404"

definition HTTP_500_INTERNAL_SERVER_ERROR :: pyval where
  "HTTP_500_INTERNAL_SERVER_ERROR = PyInt 500"

text \<open>\<^verbatim>\<open>Response(data)\<close> without a status is a 200.\<close>

definition Response :: "json \<Rightarrow> pyval \<Rightarrow> response" where
  "Response d s = \<lparr>status_code = s, body = Data d\<rparr>"

definition HttpResponseServerError :: "exn \<Rightarrow> response" where
  "HttpResponseServerError ex =
     \<lparr>status_code = HTTP_500_INTERNAL_SERVER_ERROR, body = Content (str_exn ex)\<rparr>"

text \<open>
  What a handler does: an exception escapes it, it returns a response, or (a
  Python function that falls off its end) it returns \<^verbatim>\<open>None\<close>.
\<close>

datatype outcome = Raised exn | Returned response | ReturnedNone

section \<open>The store\<close>

text \<open>
  Modelled from the spec: the model classes \<^verbatim>\<open>User\<close>, \<^verbatim>\<open>Gamer\<close>, \<^verbatim>\<open>Game\<close>,
  \<^verbatim>\<open>Status\<close> and \<^verbatim>\<open>Event\<close> of \<^verbatim>\<open>levelupapi.models\<close> are not among the source
  files. Their fields are the ones the data model of the specification and the
  serializers of \<^verbatim>\<open>event.py\<close> name; a reference to another row is the key of
  that row. The values of \<open>name\<close> and \<open>time\<close> are kept as the request gave them.
\<close>

record user =
  user_id :: int
  first_name :: string
  last_name :: string
  email :: string

record gamer =
  gamer_id :: int
  gamer_user :: int

record game =
  game_id :: int
  game_name :: string
  player_limit :: int
  created_by :: int
  gametype :: int

record status =
  status_id :: int
  title :: string

text \<open>
  An \<^verbatim>\<open>Event()\<close> that has not been saved has its fields and no key yet; a row
  of the table has the key too.
\<close>

record event_fields =
  event_name :: pyval
  event_time :: pyval
  event_host :: int
  event_game :: int
  event_status :: int

record event = event_fields +
  event_id :: int

text \<open>
  The tables, each a list of rows, and the join table of the many-to-many
  relation \<^verbatim>\<open>signed_up_by\<close>: a row \<open>(e, g)\<close> says that gamer \<open>g\<close> signed up for
  event \<open>e\<close>.
\<close>

record db =
  users :: "user list"
  gamers :: "gamer list"
  games :: "game list"
  statuses :: "status list"
  events :: "event list"
  signups :: "(int \<times> int) list"

text \<open>
  A request: the key of the authenticated user (\<^verbatim>\<open>request.auth.user\<close>), the
  verb (\<^verbatim>\<open>request.method\<close>), the body (\<^verbatim>\<open>request.data\<close>) and the query
  parameters.
\<close>

record request =
  auth_user :: int
  http_method :: string
  data :: "string \<rightharpoonup> pyval"
  query_params :: "string \<rightharpoonup> string"

text \<open>\<^verbatim>\<open>request.data[k]\<close> raises \<open>KeyError\<close> when the body has no key \<open>k\<close>.\<close>

definition data_get :: "request \<Rightarrow> string \<Rightarrow> exn + pyval" where
  "data_get request k = (case data request k of None \<Rightarrow> Inl (KeyError k) | Some v \<Rightarrow> Inr v)"

subsection \<open>Lookups\<close>

text \<open>
  The store compares an integer key with the value of the lookup after turning
  that value into an integer: an integer is taken as it is, a string has to be a
  decimal numeral with an optional sign, and any other string is a \<open>ValueError\<close>.
\<close>

definition digit_of :: "char \<Rightarrow> nat option" where
  "digit_of c = (let n = (of_char c :: nat) in if 48 \<le> n \<and> n \<le> 57 then Some (n - 48) else None)"

fun digits_value :: "nat \<Rightarrow> string \<Rightarrow> nat option" where
  "digits_value acc [] = Some acc"
| "digits_value acc (c # cs) =
     (case digit_of c of None \<Rightarrow> None | Some d \<Rightarrow> digits_value (10 * acc + d) cs)"

definition parse_nat :: "string \<Rightarrow> nat option" where
  "parse_nat s = (if s = [] then None else digits_value 0 s)"

definition parse_int :: "string \<Rightarrow> int option" where
  "parse_int s =
     (case s of
        [] \<Rightarrow> None
      | c # cs \<Rightarrow>
          if c = CHR ''-'' then map_option (\<lambda>n. - int n) (parse_nat cs)
          else if c = CHR ''+'' then map_option int (parse_nat cs)
          else map_option int (parse_nat s))"

fun to_pk :: "pyval \<Rightarrow> exn + int" where
  "to_pk (PyInt n) = Inr n"
| "to_pk (PyStr s) =
     (case parse_int s of
        None \<Rightarrow>
          Inl (ValueError (''Field '' @ quote @ ''id'' @ quote @ '' expected a number but got ''
                           @ quote @ s @ quote @ ''.''))
      | Some n \<Rightarrow> Inr n)"

text \<open>
  \<^verbatim>\<open>Model.objects.get(...)\<close>: the one row that satisfies the condition;
  \<open>DoesNotExist\<close> when there is none, \<open>MultipleObjectsReturned\<close> when there are
  several.
\<close>

definition objects_get :: "string \<Rightarrow> ('a \<Rightarrow> bool) \<Rightarrow> 'a list \<Rightarrow> exn + 'a" where
  "objects_get model P rows =
     (case filter P rows of
        [] \<Rightarrow> Inl (DoesNotExist model)
      | [r] \<Rightarrow> Inr r
      | r # r' # rs \<Rightarrow> Inl (MultipleObjectsReturned model (length (r # r' # rs))))"

text \<open>\<^verbatim>\<open>Model.objects.get(pk=v)\<close>.\<close>

definition get_pk :: "string \<Rightarrow> ('a \<Rightarrow> int) \<Rightarrow> pyval \<Rightarrow> 'a list \<Rightarrow> exn + 'a" where
  "get_pk model key v rows =
     (case to_pk v of Inl ex \<Rightarrow> Inl ex | Inr k \<Rightarrow> objects_get model (\<lambda>r. key r = k) rows)"

text \<open>\<^verbatim>\<open>Gamer.objects.get(user=request.auth.user)\<close>.\<close>

definition get_gamer :: "db \<Rightarrow> request \<Rightarrow> exn + gamer" where
  "get_gamer d request = objects_get ''Gamer'' (\<lambda>g. gamer_user g = auth_user request) (gamers d)"

text \<open>Sequencing of steps that may raise: the first exception ends the sequence.\<close>

definition and_then :: "exn + 'a \<Rightarrow> ('a \<Rightarrow> exn + 'b) \<Rightarrow> exn + 'b" where
  "and_then m f = (case m of Inl ex \<Rightarrow> Inl ex | Inr x \<Rightarrow> f x)"

subsection \<open>Writes\<close>

text \<open>
  Modelled from the spec: what the store does on a write is not in the source
  files. Each handler makes at most one write; its parameter \<open>fault\<close> is the
  exception the store raises on that write, \<open>None\<close> when the write goes through.
  A new row gets a key that no row of the table has.
\<close>

definition next_id :: "event list \<Rightarrow> int" where
  "next_id rows = fold max (map event_id rows) 0 + 1"

text \<open>\<^verbatim>\<open>event.save()\<close> on a new \<^verbatim>\<open>Event()\<close>: the row is added and the instance gets its key.\<close>

definition save_insert :: "exn option \<Rightarrow> event_fields \<Rightarrow> db \<Rightarrow> exn + event \<times> db" where
  "save_insert fault f d =
     (case fault of
        Some ex \<Rightarrow> Inl ex
      | None \<Rightarrow>
          (let ev = \<lparr>event_name = event_name f, event_time = event_time f,
                     event_host = event_host f, event_game = event_game f,
                     event_status = event_status f, event_id = next_id (events d)\<rparr>
           in Inr (ev, d\<lparr>events := events d @ [ev]\<rparr>)))"

text \<open>\<^verbatim>\<open>event.save()\<close> on an instance read from the store: its row is overwritten.\<close>

definition save_update :: "exn option \<Rightarrow> event \<Rightarrow> db \<Rightarrow> exn + db" where
  "save_update fault ev d =
     (case fault of
        Some ex \<Rightarrow> Inl ex
      | None \<Rightarrow> Inr (d\<lparr>events := map (\<lambda>r. if event_id r = event_id ev then ev else r) (events d)\<rparr>))"

text \<open>\<^verbatim>\<open>event.delete()\<close>: the row goes, and with it the rows of the join table that name it.\<close>

definition delete_event :: "exn option \<Rightarrow> event \<Rightarrow> db \<Rightarrow> exn + db" where
  "delete_event fault ev d =
     (case fault of
        Some ex \<Rightarrow> Inl ex
      | None \<Rightarrow>
          Inr (d\<lparr>events := filter (\<lambda>r. event_id r \<noteq> event_id ev) (events d),
                  signups := filter (\<lambda>(e, g). e \<noteq> event_id ev) (signups d)\<rparr>))"

text \<open>
  \<^verbatim>\<open>event.signed_up_by.all()\<close>: the gamers joined to the event.
  \<^verbatim>\<open>gamer in ...\<close> compares model instances by their key.
\<close>

definition signed_up_by :: "db \<Rightarrow> event \<Rightarrow> gamer list" where
  "signed_up_by d ev = filter (\<lambda>g. (event_id ev, gamer_id g) \<in> set (signups d)) (gamers d)"

definition gamer_in :: "gamer \<Rightarrow> gamer list \<Rightarrow> bool" where
  "gamer_in g gs = list_ex (\<lambda>g'. gamer_id g' = gamer_id g) gs"

text \<open>\<^verbatim>\<open>event.signed_up_by.add(gamer)\<close>: a join row is added unless it is there already.\<close>

definition signed_up_by_add :: "exn option \<Rightarrow> event \<Rightarrow> gamer \<Rightarrow> db \<Rightarrow> exn + db" where
  "signed_up_by_add fault ev g d =
     (case fault of
        Some ex \<Rightarrow> Inl ex
      | None \<Rightarrow>
          Inr (if (event_id ev, gamer_id g) \<in> set (signups d) then d
               else d\<lparr>signups := signups d @ [(event_id ev, gamer_id g)]\<rparr>))"

text \<open>\<^verbatim>\<open>event.signed_up_by.remove(gamer)\<close>: the join rows of the pair are deleted.\<close>

definition signed_up_by_remove :: "exn option \<Rightarrow> event \<Rightarrow> gamer \<Rightarrow> db \<Rightarrow> exn + db" where
  "signed_up_by_remove fault ev g d =
     (case fault of
        Some ex \<Rightarrow> Inl ex
      | None \<Rightarrow> Inr (d\<lparr>signups := filter (\<lambda>p. p \<noteq> (event_id ev, gamer_id g)) (signups d)\<rparr>))"

section \<open>Serializers\<close>

text \<open>
  Modelled from the spec: \<^verbatim>\<open>joined\<close> is a derived boolean of an \<^verbatim>\<open>Event\<close>
  instance, computed per request and not persisted. An instance is a row
  together with the value the handler assigned to \<^verbatim>\<open>event.joined\<close>, \<open>None\<close> when
  it assigned none, as for every instance freshly read from the store; the
  representation of such an instance has no \<open>joined\<close> entry.
\<close>

record inst =
  row :: event
  joined :: "bool option"

text \<open>Instances as a query hands them out.\<close>

definition fetch :: "event list \<Rightarrow> inst list" where
  "fetch rows = map (\<lambda>r. \<lparr>row = r, joined = None\<rparr>) rows"

definition EventUserSerializer :: "user \<Rightarrow> json" where
  "EventUserSerializer u =
     JObj [(''first_name'', JStr (first_name u)), (''last_name'', JStr (last_name u)),
           (''email'', JStr (email u))]"

text \<open>A related row is read from the store by its key when the serializer reaches it.\<close>

definition EventGamerSerializer :: "db \<Rightarrow> gamer \<Rightarrow> exn + json" where
  "EventGamerSerializer d g =
     and_then (get_pk ''User'' user_id (PyInt (gamer_user g)) (users d)) (\<lambda>u.
     Inr (JObj [(''user'', EventUserSerializer u)]))"

definition GameSerializer :: "game \<Rightarrow> json" where
  "GameSerializer g =
     JObj [(''id'', JInt (game_id g)), (''name'', JStr (game_name g)),
           (''player_limit'', JInt (player_limit g)), (''created_by'', JInt (created_by g)),
           (''gametype'', JInt (gametype g))]"

definition StatusSerializer :: "status \<Rightarrow> json" where
  "StatusSerializer s = JObj [(''id'', JInt (status_id s)), (''title'', JStr (title s))]"

definition joined_entry :: "bool option \<Rightarrow> (string \<times> json) list" where
  "joined_entry j = (case j of None \<Rightarrow> [] | Some b \<Rightarrow> [(''joined'', JBool b)])"

definition EventSerializer :: "db \<Rightarrow> inst \<Rightarrow> exn + json" where
  "EventSerializer d i =
     and_then (get_pk ''Game'' game_id (PyInt (event_game (row i))) (games d)) (\<lambda>g.
     and_then (get_pk ''Gamer'' gamer_id (PyInt (event_host (row i))) (gamers d)) (\<lambda>h.
     and_then (EventGamerSerializer d h) (\<lambda>hj.
     and_then (get_pk ''Status'' status_id (PyInt (event_status (row i))) (statuses d)) (\<lambda>s.
     Inr (JObj ([(''id'', JInt (event_id (row i))), (''game'', GameSerializer g), (''host'', hj),
                 (''name'', json_of (event_name (row i))), (''time'', json_of (event_time (row i))),
                 (''status'', StatusSerializer s)] @ joined_entry (joined i)))))))"

text \<open>\<^verbatim>\<open>EventSerializer(events, many=True)\<close>: one representation for each instance, in order.\<close>

fun serialize_many :: "db \<Rightarrow> inst list \<Rightarrow> exn + json list" where
  "serialize_many d [] = Inr []"
| "serialize_many d (i # rest) =
     and_then (EventSerializer d i) (\<lambda>j.
     and_then (serialize_many d rest) (\<lambda>js. Inr (j # js)))"

text \<open>Reading a field of a JSON object.\<close>

fun field :: "string \<Rightarrow> json \<Rightarrow> json option" where
  "field k (JObj kvs) = map_of kvs k"
| "field k _ = None"

section \<open>The handlers of \<^verbatim>\<open>EventView\<close>\<close>

text \<open>
  Each handler takes the store and returns what it did together with the store
  it leaves: a write that went through stays when an exception escapes later.
\<close>

subsection \<open>\<^verbatim>\<open>create\<close>\<close>

text \<open>The statements before the \<^verbatim>\<open>try\<close>: the fields of the new event.\<close>

definition create_fields :: "db \<Rightarrow> request \<Rightarrow> exn + event_fields" where
  "create_fields d request =
     and_then (data_get request ''name'') (\<lambda>name.
     and_then (data_get request ''time'') (\<lambda>time.
     and_then (get_gamer d request) (\<lambda>gamer.
     and_then (data_get request ''game_id'') (\<lambda>gid.
     and_then (get_pk ''Game'' game_id gid (games d)) (\<lambda>game.
     and_then (get_pk ''Status'' status_id (PyInt 1) (statuses d)) (\<lambda>event_status.
     Inr \<lparr>event_name = name, event_time = time, event_host = gamer_id gamer,
          event_game = game_id game, event_status = status_id event_status\<rparr>))))))"

text \<open>The \<^verbatim>\<open>try\<close> block: save, then serialize.\<close>

definition create_try :: "db \<Rightarrow> exn option \<Rightarrow> event_fields \<Rightarrow> db \<times> (exn + json)" where
  "create_try d fault f =
     (case save_insert fault f d of
        Inl ex \<Rightarrow> (d, Inl ex)
      | Inr (event, d') \<Rightarrow> (d', EventSerializer d' \<lparr>row = event, joined = None\<rparr>))"

definition create :: "db \<Rightarrow> exn option \<Rightarrow> request \<Rightarrow> outcome \<times> db" where
  "create d fault request =
     (case create_fields d request of
        Inl ex \<Rightarrow> (Raised ex, d)
      | Inr f \<Rightarrow>
          (case create_try d fault f of
             (d', Inr j) \<Rightarrow> (Returned (Response j HTTP_201_CREATED), d')
           | (d', Inl (ValidationError msg)) \<Rightarrow>
               (Returned (Response (JObj [(''reason'', JStr msg)]) HTTP_400_BAD_REQUEST), d')
           | (d', Inl ex) \<Rightarrow> (Raised ex, d')))"

subsection \<open>\<^verbatim>\<open>retrieve\<close>\<close>

definition retrieve :: "db \<Rightarrow> request \<Rightarrow> pyval \<Rightarrow> outcome \<times> db" where
  "retrieve d request pk =
     (case and_then (get_pk ''Event'' event_id pk (events d)) (\<lambda>event.
             EventSerializer d \<lparr>row = event, joined = None\<rparr>) of
        Inr j \<Rightarrow> (Returned (Response j HTTP_200_OK), d)
      | Inl ex \<Rightarrow> (Returned (HttpResponseServerError ex), d))"

subsection \<open>\<^verbatim>\<open>update\<close>\<close>

text \<open>
  Modelled from the spec: a \<^verbatim>\<open>Status\<close> row has an id (its primary key) and a
  title. Reading any other attribute of it is an \<open>AttributeError\<close>.
\<close>

definition Status_getattr :: "status \<Rightarrow> string \<Rightarrow> exn + pyval" where
  "Status_getattr s a =
     (if a = ''id'' \<or> a = ''pk'' then Inr (PyInt (status_id s))
      else if a = ''title'' then Inr (PyStr (title s))
      else Inl (AttributeError ''Status'' a))"

text \<open>The statements up to \<^verbatim>\<open>event.save()\<close>: the instance with its new fields, and the local \<^verbatim>\<open>status\<close>.\<close>

definition update_fields :: "db \<Rightarrow> request \<Rightarrow> pyval \<Rightarrow> exn + event \<times> status" where
  "update_fields d request pk =
     and_then (get_pk ''Event'' event_id pk (events d)) (\<lambda>event.
     and_then (data_get request ''name'') (\<lambda>name.
     and_then (data_get request ''time'') (\<lambda>time.
     and_then (get_gamer d request) (\<lambda>host.
     and_then (data_get request ''gameId'') (\<lambda>gid.
     and_then (get_pk ''Game'' game_id gid (games d)) (\<lambda>game.
     and_then (data_get request ''statusId'') (\<lambda>sid.
     and_then (get_pk ''Status'' status_id sid (statuses d)) (\<lambda>status.
     Inr (event\<lparr>event_name := name, event_time := time, event_host := gamer_id host,
                 event_game := game_id game, event_status := status_id status\<rparr>, status)))))))))"

text \<open>
  In the last statement, \<^verbatim>\<open>status.HTTP_204_NO_CONTENT\<close>, the name \<^verbatim>\<open>status\<close> is
  the local variable assigned three statements before, the \<^verbatim>\<open>Status\<close> row, not
  the module \<^verbatim>\<open>rest_framework.status\<close>: an assignment in the body makes the name
  local to the whole function.
\<close>

definition update :: "db \<Rightarrow> exn option \<Rightarrow> request \<Rightarrow> pyval \<Rightarrow> outcome \<times> db" where
  "update d fault request pk =
     (case update_fields d request pk of
        Inl ex \<Rightarrow> (Raised ex, d)
      | Inr (event, status) \<Rightarrow>
          (case save_update fault event d of
             Inl ex \<Rightarrow> (Raised ex, d)
           | Inr d' \<Rightarrow>
               (case Status_getattr status ''HTTP_204_NO_CONTENT'' of
                  Inl ex \<Rightarrow> (Raised ex, d')
                | Inr code \<Rightarrow> (Returned (Response (JObj []) code), d'))))"

subsection \<open>\<^verbatim>\<open>destroy\<close>\<close>

definition destroy :: "db \<Rightarrow> exn option \<Rightarrow> request \<Rightarrow> pyval \<Rightarrow> outcome \<times> db" where
  "destroy d fault request pk =
     (case and_then (get_pk ''Event'' event_id pk (events d)) (\<lambda>event.
             delete_event fault event d) of
        Inr d' \<Rightarrow> (Returned (Response (JObj []) HTTP_204_NO_CONTENT), d')
      | Inl ex \<Rightarrow>
          if ex = DoesNotExist ''Event''
          then (Returned (Response (JObj [(''message'', JStr (args0 ex))]) HTTP_404_NOT_FOUND), d)
          else (Returned (Response (JObj [(''message'', JStr (args0 ex))])
                            HTTP_500_INTERNAL_SERVER_ERROR), d))"

subsection \<open>\<^verbatim>\<open>list\<close>\<close>

text \<open>The loop that assigns \<^verbatim>\<open>event.joined\<close> on every instance of the query already read.\<close>

definition set_joined :: "db \<Rightarrow> gamer \<Rightarrow> inst list \<Rightarrow> inst list" where
  "set_joined d gamer insts =
     map (\<lambda>event. event\<lparr>joined := Some (gamer_in gamer (signed_up_by d (row event)))\<rparr>) insts"

text \<open>
  \<^verbatim>\<open>events.filter(game__id=game)\<close> is a new query: evaluating it reads the rows
  again and hands out fresh instances.
\<close>

definition filter_game :: "db \<Rightarrow> string \<Rightarrow> exn + inst list" where
  "filter_game d game =
     and_then (to_pk (PyStr game)) (\<lambda>k.
     Inr (fetch (filter (\<lambda>r. event_game r = k) (events d))))"

definition list_events :: "db \<Rightarrow> request \<Rightarrow> outcome \<times> db" where
  "list_events d request =
     (case get_gamer d request of
        Inl ex \<Rightarrow> (Raised ex, d)
      | Inr gamer \<Rightarrow>
          (let events = set_joined d gamer (fetch (events d)) in
           case and_then
                  (case query_params request ''gameId'' of
                     None \<Rightarrow> Inr events
                   | Some game \<Rightarrow> filter_game d game)
                  (serialize_many d) of
             Inl ex \<Rightarrow> (Raised ex, d)
           | Inr js \<Rightarrow> (Returned (Response (JArr js) HTTP_200_OK), d)))"

subsection \<open>\<^verbatim>\<open>signup\<close>\<close>

definition signup :: "db \<Rightarrow> exn option \<Rightarrow> request \<Rightarrow> pyval \<Rightarrow> outcome \<times> db" where
  "signup d fault request pk =
     (case get_gamer d request of
        Inl ex \<Rightarrow> (Raised ex, d)
      | Inr gamer \<Rightarrow>
          (case get_pk ''Event'' event_id pk (events d) of
             Inl ex \<Rightarrow>
               if ex = DoesNotExist ''Event''
               then (Returned (Response (JObj [(''message'', JStr ''Event does not exist.'')])
                                 HTTP_400_BAD_REQUEST), d)
               else (Raised ex, d)
           | Inr event \<Rightarrow>
               if http_method request = ''POST'' then
                 (case signed_up_by_add fault event gamer d of
                    Inr d' \<Rightarrow> (Returned (Response (JObj []) HTTP_201_CREATED), d')
                  | Inl ex \<Rightarrow>
                      (Returned (Response (JObj [(''message'', JStr (args0 ex))]) HTTP_200_OK), d))
               else if http_method request = ''DELETE'' then
                 (case signed_up_by_remove fault event gamer d of
                    Inr d' \<Rightarrow> (Returned (Response JNull HTTP_204_NO_CONTENT), d')
                  | Inl ex \<Rightarrow>
                      (Returned (Response (JObj [(''message'', JStr (args0 ex))]) HTTP_200_OK), d))
               else (ReturnedNone, d)))"

section \<open>A small store\<close>

text \<open>
  One user who is a gamer, two games, two statuses, two events; the gamer has
  signed up for the first event.
\<close>

definition db0 :: db where
  "db0 =
     \<lparr>users = [\<lparr>user_id = 7, first_name = ''Ada'', last_name = ''Byron'', email = ''ada@example.org''\<rparr>],
      gamers = [\<lparr>gamer_id = 5, gamer_user = 7\<rparr>],
      games = [\<lparr>game_id = 3, game_name = ''Trivia'', player_limit = 4, created_by = 5, gametype = 1\<rparr>,
               \<lparr>game_id = 4, game_name = ''Chess'', player_limit = 2, created_by = 5, gametype = 2\<rparr>],
      statuses = [\<lparr>status_id = 1, title = ''Open for signing up''\<rparr>,
                  \<lparr>status_id = 2, title = ''Closed''\<rparr>],
      events = [\<lparr>event_name = PyStr ''Trivia Night'', event_time = PyStr ''19:00'', event_host = 5,
                 event_game = 3, event_status = 1, event_id = 1\<rparr>,
                \<lparr>event_name = PyStr ''Chess Club'', event_time = PyStr ''20:00'', event_host = 5,
                 event_game = 4, event_status = 1, event_id = 2\<rparr>],
      signups = [(1, 5)]\<rparr>"

definition req0 :: request where
  "req0 = \<lparr>auth_user = 7, http_method = ''GET'', data = Map.empty, query_params = Map.empty\<rparr>"

text \<open>The example of the specification: Trivia Night at 19:00 for game 3.\<close>

definition req_create :: request where
  "req_create =
     req0\<lparr>http_method := ''POST'',
          data := [''name'' \<mapsto> PyStr ''Trivia Night'', ''time'' \<mapsto> PyStr ''19:00'',
                   ''game_id'' \<mapsto> PyInt 3]\<rparr>"

text \<open>A full replacement of the first event: another name, time, game and status.\<close>

definition req_update :: request where
  "req_update =
     req0\<lparr>http_method := ''PUT'',
          data := [''name'' \<mapsto> PyStr ''Chess Night'', ''time'' \<mapsto> PyStr ''21:00'',
                   ''gameId'' \<mapsto> PyInt 4, ''statusId'' \<mapsto> PyInt 2]\<rparr>"

definition event1 :: event where
  "event1 = \<lparr>event_name = PyStr ''Trivia Night'', event_time = PyStr ''19:00'', event_host = 5,
              event_game = 3, event_status = 1, event_id = 1\<rparr>"

definition event2 :: event where
  "event2 = \<lparr>event_name = PyStr ''Chess Club'', event_time = PyStr ''20:00'', event_host = 5,
              event_game = 4, event_status = 1, event_id = 2\<rparr>"

definition gamer5 :: gamer where
  "gamer5 = \<lparr>gamer_id = 5, gamer_user = 7\<rparr>"

text \<open>The list of the events of game 3.\<close>

definition req_list_game3 :: request where
  "req_list_game3 = req0\<lparr>query_params := [''gameId'' \<mapsto> ''3'']\<rparr>"

section \<open>Lookups: what a result says about the table\<close>

lemma objects_get_Inr: "objects_get m P rows = Inr r \<Longrightarrow> P r \<and> r \<in> set rows"
proof -
  assume "objects_get m P rows = Inr r"
  then have "filter P rows = [r]"
    by (auto simp: objects_get_def split: list.splits)
  then have "r \<in> set (filter P rows)" by simp
  then show ?thesis by simp
qed

lemma objects_get_none:
  "\<forall>r\<in>set rows. \<not> P r \<Longrightarrow> objects_get m P rows = Inl (DoesNotExist m)"
  by (simp add: objects_get_def filter_False)

lemma get_pk_Inr: "get_pk m key v rows = Inr r \<Longrightarrow> to_pk v = Inr (key r) \<and> r \<in> set rows"
  by (auto simp: get_pk_def split: sum.splits dest: objects_get_Inr)

lemma get_pk_missing:
  "to_pk v = Inr k \<Longrightarrow> \<forall>r\<in>set rows. key r \<noteq> k \<Longrightarrow> get_pk m key v rows = Inl (DoesNotExist m)"
  by (simp add: get_pk_def objects_get_none)

lemma get_pk_again: "get_pk m key v rows = Inr r \<Longrightarrow> get_pk m key (PyInt (key r)) rows = Inr r"
proof -
  assume "get_pk m key v rows = Inr r"
  then obtain k where k: "to_pk v = Inr k" "objects_get m (\<lambda>r. key r = k) rows = Inr r"
    by (auto simp: get_pk_def split: sum.splits)
  from objects_get_Inr[OF k(2)] have "key r = k" by simp
  with k(2) show ?thesis by (simp add: get_pk_def)
qed

lemma get_gamer_data [simp]: "get_gamer d (request\<lparr>data := x\<rparr>) = get_gamer d request"
  by (simp add: get_gamer_def)

lemma get_gamer_user: "get_gamer d request = Inr g \<Longrightarrow> gamer_user g = auth_user request"
  by (auto simp: get_gamer_def dest: objects_get_Inr)

text \<open>Numerals as the store reads them.\<close>

lemma parse_int_1 [simp]: "parse_int ''1'' = Some 1"
  by (simp add: parse_int_def parse_nat_def digit_of_def)

lemma parse_int_3 [simp]: "parse_int ''3'' = Some 3"
  by (simp add: parse_int_def parse_nat_def digit_of_def)

lemma parse_int_999 [simp]: "parse_int ''999'' = Some 999"
  by (simp add: parse_int_def parse_nat_def digit_of_def)

lemma parse_int_abc [simp]: "parse_int ''abc'' = None"
  by (simp add: parse_int_def parse_nat_def digit_of_def)

text \<open>The lookups of the small store.\<close>

lemma db0_gamer [simp]: "get_gamer db0 (req0\<lparr>http_method := mt, data := dt\<rparr>) = Inr gamer5"
  by (simp add: get_gamer_def objects_get_def db0_def req0_def gamer5_def)

lemma db0_gamer_q [simp]: "get_gamer db0 (req0\<lparr>query_params := q\<rparr>) = Inr gamer5"
  by (simp add: get_gamer_def objects_get_def db0_def req0_def gamer5_def)

lemma db0_gamer_m [simp]: "get_gamer db0 (req0\<lparr>http_method := mt\<rparr>) = Inr gamer5"
  by (simp add: get_gamer_def objects_get_def db0_def req0_def gamer5_def)

lemma db0_event1 [simp]: "get_pk ''Event'' event_id (PyInt 1) (events db0) = Inr event1"
  by (simp add: get_pk_def objects_get_def db0_def event1_def)

lemma db0_event1_str [simp]: "get_pk ''Event'' event_id (PyStr ''1'') (events db0) = Inr event1"
  by (simp add: get_pk_def objects_get_def db0_def event1_def)

section \<open>\<^verbatim>\<open>create\<close>\<close>

lemma create_fields_Inr:
  assumes "data request ''name'' = Some name"
    and "data request ''time'' = Some time"
    and "data request ''game_id'' = Some gid"
    and "get_gamer d request = Inr gamer"
    and "get_pk ''Game'' game_id gid (games d) = Inr game"
    and "get_pk ''Status'' status_id (PyInt 1) (statuses d) = Inr st"
  shows "create_fields d request =
    Inr \<lparr>event_name = name, event_time = time, event_host = gamer_id gamer,
         event_game = game_id game, event_status = 1\<rparr>"
proof -
  from get_pk_Inr[OF assms(6)] have "status_id st = 1" by simp
  with assms show ?thesis
    by (simp add: create_fields_def and_then_def data_get_def)
qed

text \<open>An exception of the statements before the \<^verbatim>\<open>try\<close> escapes, whatever it is.\<close>

lemma create_fields_Inl: "create_fields d request = Inl ex \<Longrightarrow> create d fault request = (Raised ex, d)"
  by (simp add: create_def)

text \<open>
  Claim C1. When the body has \<open>name\<close>, \<open>time\<close> and a \<open>game_id\<close> that names a
  game, the requester is a gamer, the status with id 1 exists and the store
  accepts the row, \<open>create\<close> adds exactly one event; its status is 1 and its host
  is the gamer of the authenticated user. A \<open>host\<close> entry of the body, absent or
  with any value \<open>h\<close>, changes nothing of this.
\<close>

theorem create_status_1_and_host:
  assumes "data request ''name'' = Some name"
    and "data request ''time'' = Some time"
    and "data request ''game_id'' = Some gid"
    and "get_gamer d request = Inr gamer"
    and "get_pk ''Game'' game_id gid (games d) = Inr game"
    and "get_pk ''Status'' status_id (PyInt 1) (statuses d) = Inr st"
  shows "\<exists>ev. events (snd (create d None (request\<lparr>data := (data request)(''host'' := h)\<rparr>)))
        = events d @ [ev]
    \<and> event_status ev = 1 \<and> status_id st = 1
    \<and> event_host ev = gamer_id gamer \<and> gamer_user gamer = auth_user request
    \<and> event_name ev = name \<and> event_time ev = time \<and> event_game ev = game_id game"
proof -
  let ?request = "request\<lparr>data := (data request)(''host'' := h)\<rparr>"
  have f: "create_fields d ?request =
    Inr \<lparr>event_name = name, event_time = time, event_host = gamer_id gamer,
         event_game = game_id game, event_status = 1\<rparr>"
    using assms by (intro create_fields_Inr) simp_all
  have u: "gamer_user gamer = auth_user request"
    using assms(4) by (rule get_gamer_user)
  from get_pk_Inr[OF assms(6)] have s: "status_id st = 1" by simp
  show ?thesis
    using u s
    by (simp add: create_def f create_try_def save_insert_def Let_def split: sum.splits exn.splits)
qed

theorem create_status_1_and_host_witness:
  "data req_create ''name'' = Some (PyStr ''Trivia Night'')
   \<and> data req_create ''game_id'' = Some (PyInt 3)
   \<and> get_gamer db0 req_create = Inr gamer5
   \<and> (\<exists>ev. events (snd (create db0 None
                 (req_create\<lparr>data := (data req_create)(''host'' := Some (PyInt 99))\<rparr>)))
              = events db0 @ [ev]
           \<and> event_status ev = 1 \<and> event_host ev = 5 \<and> event_name ev = PyStr ''Trivia Night'')"
proof -
  have h1: "data req_create ''name'' = Some (PyStr ''Trivia Night'')"
    and h2: "data req_create ''time'' = Some (PyStr ''19:00'')"
    and h3: "data req_create ''game_id'' = Some (PyInt 3)"
    by (simp_all add: req_create_def req0_def)
  have h4: "get_gamer db0 req_create = Inr gamer5"
    by (simp add: req_create_def)
  have h5: "get_pk ''Game'' game_id (PyInt 3) (games db0) =
      Inr \<lparr>game_id = 3, game_name = ''Trivia'', player_limit = 4, created_by = 5, gametype = 1\<rparr>"
    by (simp add: get_pk_def objects_get_def db0_def)
  have h6: "get_pk ''Status'' status_id (PyInt 1) (statuses db0) =
      Inr \<lparr>status_id = 1, title = ''Open for signing up''\<rparr>"
    by (simp add: get_pk_def objects_get_def db0_def)
  from create_status_1_and_host[OF h1 h2 h3 h4 h5 h6, of "Some (PyInt 99)"] h1 h3 h4
  show ?thesis by (auto simp: gamer5_def)
qed

text \<open>
  Claim C9. When the statements before the \<^verbatim>\<open>try\<close> succeed and the related rows
  of the new event can be read back, a save that goes through gives status 201
  with the serialized new event as body; a \<open>ValidationError\<close> of the save gives
  status 400 with the message of the error under \<open>reason\<close>, and the store is
  left as it was.
\<close>

theorem create_201_or_400:
  assumes "data request ''name'' = Some name"
    and "data request ''time'' = Some time"
    and "data request ''game_id'' = Some gid"
    and "get_gamer d request = Inr gamer"
    and "get_pk ''Game'' game_id gid (games d) = Inr game"
    and "get_pk ''Status'' status_id (PyInt 1) (statuses d) = Inr st"
    and "get_pk ''Gamer'' gamer_id (PyInt (gamer_id gamer)) (gamers d) = Inr gamer"
    and "get_pk ''User'' user_id (PyInt (gamer_user gamer)) (users d) = Inr u"
  shows "(\<exists>ev j. events (snd (create d None request)) = events d @ [ev]
        \<and> EventSerializer (snd (create d None request)) \<lparr>row = ev, joined = None\<rparr> = Inr j
        \<and> fst (create d None request) = Returned (Response j HTTP_201_CREATED))
    \<and> create d (Some (ValidationError msg)) request =
        (Returned (Response (JObj [(''reason'', JStr msg)]) HTTP_400_BAD_REQUEST), d)"
proof -
  have f: "create_fields d request =
    Inr \<lparr>event_name = name, event_time = time, event_host = gamer_id gamer,
         event_game = game_id game, event_status = 1\<rparr>"
    using assms(1-6) by (rule create_fields_Inr)
  have g: "get_pk ''Game'' game_id (PyInt (game_id game)) (games d) = Inr game"
    using assms(5) by (rule get_pk_again)
  have a: "create d (Some (ValidationError msg)) request =
        (Returned (Response (JObj [(''reason'', JStr msg)]) HTTP_400_BAD_REQUEST), d)"
    by (simp add: create_def f create_try_def save_insert_def)
  have b: "\<exists>ev j. events (snd (create d None request)) = events d @ [ev]
        \<and> EventSerializer (snd (create d None request)) \<lparr>row = ev, joined = None\<rparr> = Inr j
        \<and> fst (create d None request) = Returned (Response j HTTP_201_CREATED)"
    using g assms(6,7,8)
    by (simp add: create_def f create_try_def save_insert_def Let_def EventSerializer_def
        EventGamerSerializer_def and_then_def)
  from a b show ?thesis by simp
qed

theorem create_201_or_400_witness:
  "get_gamer db0 req_create = Inr gamer5
   \<and> get_pk ''Gamer'' gamer_id (PyInt 5) (gamers db0) = Inr gamer5
   \<and> (\<exists>r. fst (create db0 None req_create) = Returned r \<and> status_code r = PyInt 201
          \<and> (\<exists>j. body r = Data j \<and> field ''id'' j = Some (JInt 3)
                 \<and> field ''name'' j = Some (JStr ''Trivia Night'')))
   \<and> create db0 (Some (ValidationError ''invalid time'')) req_create =
       (Returned \<lparr>status_code = PyInt 400, body = Data (JObj [(''reason'', JStr ''invalid time'')])\<rparr>,
        db0)"
proof -
  have h1: "data req_create ''name'' = Some (PyStr ''Trivia Night'')"
    and h2: "data req_create ''time'' = Some (PyStr ''19:00'')"
    and h3: "data req_create ''game_id'' = Some (PyInt 3)"
    by (simp_all add: req_create_def req0_def)
  have h4: "get_gamer db0 req_create = Inr gamer5"
    by (simp add: req_create_def)
  have h5: "get_pk ''Game'' game_id (PyInt 3) (games db0) =
      Inr \<lparr>game_id = 3, game_name = ''Trivia'', player_limit = 4, created_by = 5, gametype = 1\<rparr>"
    by (simp add: get_pk_def objects_get_def db0_def)
  have h6: "get_pk ''Status'' status_id (PyInt 1) (statuses db0) =
      Inr \<lparr>status_id = 1, title = ''Open for signing up''\<rparr>"
    by (simp add: get_pk_def objects_get_def db0_def)
  have h7: "get_pk ''Gamer'' gamer_id (PyInt (gamer_id gamer5)) (gamers db0) = Inr gamer5"
    by (simp add: get_pk_def objects_get_def db0_def gamer5_def)
  have h8: "get_pk ''User'' user_id (PyInt (gamer_user gamer5)) (users db0) =
      Inr \<lparr>user_id = 7, first_name = ''Ada'', last_name = ''Byron'', email = ''ada@example.org''\<rparr>"
    by (simp add: get_pk_def objects_get_def db0_def gamer5_def)
  have e: "events (snd (create db0 None req_create)) = events db0 @ [ev] \<Longrightarrow>
      ev = \<lparr>event_name = PyStr ''Trivia Night'', event_time = PyStr ''19:00'', event_host = 5,
            event_game = 3, event_status = 1, event_id = 3\<rparr>" for ev
    using create_fields_Inr[OF h1 h2 h3 h4 h5 h6]
    by (simp add: create_def create_try_def save_insert_def Let_def next_id_def db0_def gamer5_def
        split: sum.splits exn.splits prod.splits)
  from create_201_or_400[OF h1 h2 h3 h4 h5 h6 h7 h8, of "''invalid time''"]
  obtain ev j where
    1: "events (snd (create db0 None req_create)) = events db0 @ [ev]"
    and 2: "EventSerializer (snd (create db0 None req_create)) \<lparr>row = ev, joined = None\<rparr> = Inr j"
    and 3: "fst (create db0 None req_create) = Returned (Response j HTTP_201_CREATED)"
    and 4: "create db0 (Some (ValidationError ''invalid time'')) req_create =
        (Returned (Response (JObj [(''reason'', JStr ''invalid time'')]) HTTP_400_BAD_REQUEST), db0)"
    by blast
  from 2 e[OF 1] have "field ''id'' j = Some (JInt 3) \<and> field ''name'' j = Some (JStr ''Trivia Night'')"
    by (auto simp: EventSerializer_def and_then_def joined_entry_def split: sum.splits)
  with 3 4 h4 h7 show ?thesis
    by (simp add: Response_def HTTP_201_CREATED_def HTTP_400_BAD_REQUEST_def gamer5_def)
qed

text \<open>
  Claim C10. In \<open>create\<close> the lookups stand before the \<^verbatim>\<open>try\<close>. When the body
  has its keys and the requester is a gamer, a \<open>game_id\<close> that names no game makes
  \<^verbatim>\<open>Game.DoesNotExist\<close> escape the handler, and so does \<^verbatim>\<open>Status.DoesNotExist\<close>
  when the game exists and no status has id 1: no response is returned, whatever
  the save would have done, and the store is untouched.
\<close>

theorem create_lookup_failure_escapes:
  assumes "data request ''name'' = Some name"
    and "data request ''time'' = Some time"
    and "data request ''game_id'' = Some gid"
    and "get_gamer d request = Inr gamer"
    and "to_pk gid = Inr k"
  shows "((\<forall>g\<in>set (games d). game_id g \<noteq> k) \<longrightarrow>
            create d fault request = (Raised (DoesNotExist ''Game''), d))
    \<and> ((\<exists>game. get_pk ''Game'' game_id gid (games d) = Inr game)
          \<and> (\<forall>s\<in>set (statuses d). status_id s \<noteq> 1) \<longrightarrow>
            create d fault request = (Raised (DoesNotExist ''Status''), d))"
proof (intro conjI impI)
  assume "\<forall>g\<in>set (games d). game_id g \<noteq> k"
  with assms(5) have "get_pk ''Game'' game_id gid (games d) = Inl (DoesNotExist ''Game'')"
    by (rule get_pk_missing)
  with assms show "create d fault request = (Raised (DoesNotExist ''Game''), d)"
    by (simp add: create_def create_fields_def and_then_def data_get_def)
next
  assume a: "(\<exists>game. get_pk ''Game'' game_id gid (games d) = Inr game)
          \<and> (\<forall>s\<in>set (statuses d). status_id s \<noteq> 1)"
  then obtain game where g: "get_pk ''Game'' game_id gid (games d) = Inr game" by blast
  from a have n: "\<forall>s\<in>set (statuses d). status_id s \<noteq> 1" by blast
  have "get_pk ''Status'' status_id (PyInt 1) (statuses d) = Inl (DoesNotExist ''Status'')"
    by (rule get_pk_missing[OF _ n]) simp
  with assms g show "create d fault request = (Raised (DoesNotExist ''Status''), d)"
    by (simp add: create_def create_fields_def and_then_def data_get_def)
qed

theorem create_lookup_failure_escapes_witness:
  "create db0 (Some (ValidationError ''late''))
       (req_create\<lparr>data := (data req_create)(''game_id'' \<mapsto> PyInt 99)\<rparr>)
     = (Raised (DoesNotExist ''Game''), db0)
   \<and> create (db0\<lparr>statuses := []\<rparr>) None req_create
     = (Raised (DoesNotExist ''Status''), db0\<lparr>statuses := []\<rparr>)"
proof -
  let ?r = "req_create\<lparr>data := (data req_create)(''game_id'' \<mapsto> PyInt 99)\<rparr>"
  have a: "create db0 (Some (ValidationError ''late'')) ?r = (Raised (DoesNotExist ''Game''), db0)"
    using create_lookup_failure_escapes[where d = db0 and request = ?r and gid = "PyInt 99"
        and k = 99 and name = "PyStr ''Trivia Night''" and time = "PyStr ''19:00''"
        and gamer = gamer5 and fault = "Some (ValidationError ''late'')"]
    by (simp add: req_create_def req0_def db0_def get_gamer_def objects_get_def gamer5_def)
  have b: "create (db0\<lparr>statuses := []\<rparr>) None req_create
     = (Raised (DoesNotExist ''Status''), db0\<lparr>statuses := []\<rparr>)"
    using create_lookup_failure_escapes[where d = "db0\<lparr>statuses := []\<rparr>" and request = req_create
        and gid = "PyInt 3" and k = 3 and name = "PyStr ''Trivia Night''" and time = "PyStr ''19:00''"
        and gamer = gamer5 and fault = None]
    by (simp add: req_create_def req0_def db0_def get_gamer_def objects_get_def gamer5_def get_pk_def)
  from a b show ?thesis by simp
qed

section \<open>\<^verbatim>\<open>update\<close>\<close>

text \<open>No request makes \<open>update\<close> return a response.\<close>

lemma update_never_returns: "fst (update d fault request pk) \<noteq> Returned r"
  by (auto simp: update_def Status_getattr_def split: sum.splits prod.splits)

text \<open>
  Claim C2. The claim says that an update of an existing event with a full
  payload that names existing rows returns an empty body with status 204. The
  handler does not: on every such request the row is overwritten and then
  \<^verbatim>\<open>status.HTTP_204_NO_CONTENT\<close> reads an attribute of the \<^verbatim>\<open>Status\<close> row, so an
  \<open>AttributeError\<close> escapes and no response is returned.
\<close>

theorem update_raises_AttributeError:
  assumes "get_pk ''Event'' event_id pk (events d) = Inr event"
    and "data request ''name'' = Some name"
    and "data request ''time'' = Some time"
    and "get_gamer d request = Inr host"
    and "data request ''gameId'' = Some gid"
    and "get_pk ''Game'' game_id gid (games d) = Inr game"
    and "data request ''statusId'' = Some sid"
    and "get_pk ''Status'' status_id sid (statuses d) = Inr status"
  shows "fst (update d None request pk) = Raised (AttributeError ''Status'' ''HTTP_204_NO_CONTENT'')
    \<and> events (snd (update d None request pk)) =
        map (\<lambda>r. if event_id r = event_id event
                  then event\<lparr>event_name := name, event_time := time, event_host := gamer_id host,
                             event_game := game_id game, event_status := status_id status\<rparr>
                  else r) (events d)"
  using assms
  by (simp add: update_def update_fields_def and_then_def data_get_def save_update_def
      Status_getattr_def)

theorem update_raises_AttributeError_witness:
  "get_pk ''Event'' event_id (PyStr ''1'') (events db0) = Inr event1
   \<and> fst (update db0 None req_update (PyStr ''1''))
       = Raised (AttributeError ''Status'' ''HTTP_204_NO_CONTENT'')
   \<and> events (snd (update db0 None req_update (PyStr ''1'')))
       = [\<lparr>event_name = PyStr ''Chess Night'', event_time = PyStr ''21:00'', event_host = 5,
           event_game = 4, event_status = 2, event_id = 1\<rparr>, event2]"
proof -
  have h1: "get_pk ''Event'' event_id (PyStr ''1'') (events db0) = Inr event1"
    by (simp add: get_pk_def objects_get_def db0_def event1_def)
  have h2: "data req_update ''name'' = Some (PyStr ''Chess Night'')"
    and h3: "data req_update ''time'' = Some (PyStr ''21:00'')"
    and h5: "data req_update ''gameId'' = Some (PyInt 4)"
    and h7: "data req_update ''statusId'' = Some (PyInt 2)"
    by (simp_all add: req_update_def req0_def)
  have h4: "get_gamer db0 req_update = Inr gamer5"
    by (simp add: req_update_def)
  have h6: "get_pk ''Game'' game_id (PyInt 4) (games db0) =
      Inr \<lparr>game_id = 4, game_name = ''Chess'', player_limit = 2, created_by = 5, gametype = 2\<rparr>"
    by (simp add: get_pk_def objects_get_def db0_def)
  have h8: "get_pk ''Status'' status_id (PyInt 2) (statuses db0) = Inr \<lparr>status_id = 2, title = ''Closed''\<rparr>"
    by (simp add: get_pk_def objects_get_def db0_def)
  from update_raises_AttributeError[OF h1 h2 h3 h4 h5 h6 h7 h8] h1
  show ?thesis
    by (simp add: db0_def event1_def event2_def gamer5_def)
qed

section \<open>\<^verbatim>\<open>signup\<close>\<close>

lemma get_gamer_mem: "get_gamer d request = Inr g \<Longrightarrow> g \<in> set (gamers d)"
  by (auto simp: get_gamer_def dest: objects_get_Inr)

lemma gamer_in_signed_up_by:
  "g \<in> set (gamers d) \<Longrightarrow>
   gamer_in g (signed_up_by d ev) = ((event_id ev, gamer_id g) \<in> set (signups d))"
  by (auto simp: gamer_in_def signed_up_by_def list_ex_iff)

lemma objects_get_single: "filter P rows = [r] \<Longrightarrow> objects_get m P rows = Inr r"
  by (simp add: objects_get_def)

lemma get_pk_single:
  "to_pk v = Inr k \<Longrightarrow> filter (\<lambda>r. key r = k) rows = [r] \<Longrightarrow> get_pk m key v rows = Inr r"
  by (simp add: get_pk_def objects_get_single)

text \<open>
  Claim C5. The claim speaks of every signup request. It holds for a request
  whose authenticated user has exactly one gamer and whose primary key \<open>pk\<close>
  is a number \<open>k\<close>: when no event has key \<open>k\<close> the response is 400 with the
  message \<open>Event does not exist.\<close> and the store is untouched; when exactly one
  event has key \<open>k\<close> and the write goes through, \<open>POST\<close> returns 201 with an
  empty body and the gamer is in the sign-up set of the event afterwards,
  \<open>DELETE\<close> returns 204 and the gamer is not in it afterwards. Only the join
  table changes.
\<close>

theorem signup_of_gamer_with_numeric_key:
  assumes "filter (\<lambda>g. gamer_user g = auth_user request) (gamers d) = [gamer]"
    and "to_pk pk = Inr k"
  shows "((\<forall>e\<in>set (events d). event_id e \<noteq> k) \<longrightarrow>
           signup d fault request pk =
             (Returned (Response (JObj [(''message'', JStr ''Event does not exist.'')])
                          HTTP_400_BAD_REQUEST), d))
    \<and> (\<forall>event. filter (\<lambda>e. event_id e = k) (events d) = [event]
           \<and> http_method request = ''POST'' \<longrightarrow>
           fst (signup d None request pk) = Returned (Response (JObj []) HTTP_201_CREATED)
           \<and> set (signups (snd (signup d None request pk)))
               = insert (event_id event, gamer_id gamer) (set (signups d))
           \<and> gamer_in gamer (signed_up_by (snd (signup d None request pk)) event)
           \<and> (snd (signup d None request pk))\<lparr>signups := signups d\<rparr> = d)
    \<and> (\<forall>event. filter (\<lambda>e. event_id e = k) (events d) = [event]
           \<and> http_method request = ''DELETE'' \<longrightarrow>
           fst (signup d None request pk) = Returned (Response JNull HTTP_204_NO_CONTENT)
           \<and> set (signups (snd (signup d None request pk)))
               = set (signups d) - {(event_id event, gamer_id gamer)}
           \<and> \<not> gamer_in gamer (signed_up_by (snd (signup d None request pk)) event)
           \<and> (snd (signup d None request pk))\<lparr>signups := signups d\<rparr> = d)"
proof (intro conjI allI impI)
  have gg: "get_gamer d request = Inr gamer"
    using assms(1) by (simp add: get_gamer_def objects_get_single)
  have m: "gamer \<in> set (gamers d)" using gg by (rule get_gamer_mem)
  {
    assume "\<forall>e\<in>set (events d). event_id e \<noteq> k"
    with assms(2) have "get_pk ''Event'' event_id pk (events d) = Inl (DoesNotExist ''Event'')"
      by (rule get_pk_missing)
    with gg show "signup d fault request pk =
        (Returned (Response (JObj [(''message'', JStr ''Event does not exist.'')])
                     HTTP_400_BAD_REQUEST), d)"
      by (simp add: signup_def)
  }
  {
    fix event
    assume a: "filter (\<lambda>e. event_id e = k) (events d) = [event] \<and> http_method request = ''POST''"
    let ?d = "snd (signup d None request pk)"
    have e: "get_pk ''Event'' event_id pk (events d) = Inr event"
      using assms(2) a by (simp add: get_pk_single)
    show "fst (signup d None request pk) = Returned (Response (JObj []) HTTP_201_CREATED)"
      using a e gg by (simp add: signup_def signed_up_by_add_def)
    show s: "set (signups ?d) = insert (event_id event, gamer_id gamer) (set (signups d))"
      using a e gg by (auto simp: signup_def signed_up_by_add_def)
    have g: "gamers ?d = gamers d"
      using a e gg by (simp add: signup_def signed_up_by_add_def)
    from m g s show "gamer_in gamer (signed_up_by ?d event)"
      by (simp add: gamer_in_signed_up_by)
    show "?d\<lparr>signups := signups d\<rparr> = d"
      using a e gg by (simp add: signup_def signed_up_by_add_def)
  }
  {
    fix event
    assume a: "filter (\<lambda>e. event_id e = k) (events d) = [event] \<and> http_method request = ''DELETE''"
    let ?d = "snd (signup d None request pk)"
    have e: "get_pk ''Event'' event_id pk (events d) = Inr event"
      using assms(2) a by (simp add: get_pk_single)
    show "fst (signup d None request pk) = Returned (Response JNull HTTP_204_NO_CONTENT)"
      using a e gg by (simp add: signup_def signed_up_by_remove_def)
    show s: "set (signups ?d) = set (signups d) - {(event_id event, gamer_id gamer)}"
      using a e gg by (auto simp: signup_def signed_up_by_remove_def)
    have g: "gamers ?d = gamers d"
      using a e gg by (simp add: signup_def signed_up_by_remove_def)
    from m g s show "\<not> gamer_in gamer (signed_up_by ?d event)"
      by (simp add: gamer_in_signed_up_by)
    show "?d\<lparr>signups := signups d\<rparr> = d"
      using a e gg by (simp add: signup_def signed_up_by_remove_def)
  }
qed

theorem signup_of_gamer_with_numeric_key_witness:
  "filter (\<lambda>g. gamer_user g = auth_user (req0\<lparr>http_method := ''POST''\<rparr>)) (gamers db0) = [gamer5]
   \<and> filter (\<lambda>e. event_id e = 2) (events db0) = [event2]
   \<and> signup db0 None (req0\<lparr>http_method := ''DELETE''\<rparr>) (PyStr ''999'')
     = (Returned \<lparr>status_code = PyInt 400,
                  body = Data (JObj [(''message'', JStr ''Event does not exist.'')])\<rparr>, db0)
   \<and> signup db0 None (req0\<lparr>http_method := ''POST''\<rparr>) (PyInt 2)
     = (Returned \<lparr>status_code = PyInt 201, body = Data (JObj [])\<rparr>, db0\<lparr>signups := [(1, 5), (2, 5)]\<rparr>)
   \<and> gamer_in gamer5 (signed_up_by (snd (signup db0 None (req0\<lparr>http_method := ''POST''\<rparr>) (PyInt 2))) event2)
   \<and> signup db0 None (req0\<lparr>http_method := ''DELETE''\<rparr>) (PyStr ''1'')
     = (Returned \<lparr>status_code = PyInt 204, body = Data JNull\<rparr>, db0\<lparr>signups := []\<rparr>)
   \<and> \<not> gamer_in gamer5 (signed_up_by (snd (signup db0 None (req0\<lparr>http_method := ''DELETE''\<rparr>) (PyStr ''1''))) event1)"
proof -
  have g: "filter (\<lambda>g. gamer_user g = auth_user (req0\<lparr>http_method := mt\<rparr>)) (gamers db0) = [gamer5]" for mt
    by (simp add: db0_def req0_def gamer5_def)
  have n: "\<forall>e\<in>set (events db0). event_id e \<noteq> 999"
    by (simp add: db0_def)
  have e1: "filter (\<lambda>e. event_id e = 1) (events db0) = [event1]"
    by (simp add: db0_def event1_def)
  have e2: "filter (\<lambda>e. event_id e = 2) (events db0) = [event2]"
    by (simp add: db0_def event2_def)
  note t = signup_of_gamer_with_numeric_key[where d = db0 and gamer = gamer5 and fault = None]
  have a: "signup db0 None (req0\<lparr>http_method := ''DELETE''\<rparr>) (PyStr ''999'')
     = (Returned \<lparr>status_code = PyInt 400,
                  body = Data (JObj [(''message'', JStr ''Event does not exist.'')])\<rparr>, db0)"
    using t[where request = "req0\<lparr>http_method := ''DELETE''\<rparr>" and pk = "PyStr ''999''" and k = 999, OF g] n
    by (simp add: Response_def HTTP_400_BAD_REQUEST_def)
  have b: "signup db0 None (req0\<lparr>http_method := ''POST''\<rparr>) (PyInt 2)
     = (Returned \<lparr>status_code = PyInt 201, body = Data (JObj [])\<rparr>, db0\<lparr>signups := [(1, 5), (2, 5)]\<rparr>)"
    by (simp add: signup_def signed_up_by_add_def db0_def get_gamer_def objects_get_def get_pk_def
        req0_def Response_def HTTP_201_CREATED_def)
  have b': "gamer_in gamer5 (signed_up_by (snd (signup db0 None (req0\<lparr>http_method := ''POST''\<rparr>) (PyInt 2))) event2)"
    using t[where request = "req0\<lparr>http_method := ''POST''\<rparr>" and pk = "PyInt 2" and k = 2, OF g] e2
    by simp
  have c: "signup db0 None (req0\<lparr>http_method := ''DELETE''\<rparr>) (PyStr ''1'')
     = (Returned \<lparr>status_code = PyInt 204, body = Data JNull\<rparr>, db0\<lparr>signups := []\<rparr>)"
    by (simp add: signup_def signed_up_by_remove_def db0_def get_gamer_def objects_get_def get_pk_def
        req0_def Response_def HTTP_204_NO_CONTENT_def)
  have c': "\<not> gamer_in gamer5 (signed_up_by (snd (signup db0 None (req0\<lparr>http_method := ''DELETE''\<rparr>) (PyStr ''1''))) event1)"
    using t[where request = "req0\<lparr>http_method := ''DELETE''\<rparr>" and pk = "PyStr ''1''" and k = 1, OF g] e1
    by simp
  from g[of "''POST''"] e2 a b b' c c' show ?thesis by simp
qed

text \<open>
  It does not hold for every request. The handler catches \<^verbatim>\<open>Event.DoesNotExist\<close>
  only, and looks the gamer up before the \<^verbatim>\<open>try\<close>: for the key \<open>abc\<close>, which no
  event has, the \<open>ValueError\<close> of the lookup escapes, and for a user without a
  gamer \<^verbatim>\<open>Gamer.DoesNotExist\<close> escapes although event 999 does not exist. Neither
  request gets the 400.
\<close>

theorem signup_every_request_counterexample:
  "filter (\<lambda>e. to_pk (PyStr ''abc'') = Inr (event_id e)) (events db0) = []
   \<and> signup db0 None (req0\<lparr>http_method := ''POST''\<rparr>) (PyStr ''abc'')
     = (Raised (ValueError (''Field '' @ quote @ ''id'' @ quote @ '' expected a number but got ''
                            @ quote @ ''abc'' @ quote @ ''.'')), db0)
   \<and> filter (\<lambda>e. event_id e = 999) (events db0) = []
   \<and> filter (\<lambda>g. gamer_user g = 8) (gamers db0) = []
   \<and> signup db0 None (req0\<lparr>auth_user := 8, http_method := ''DELETE''\<rparr>) (PyStr ''999'')
     = (Raised (DoesNotExist ''Gamer''), db0)"
  by (simp add: signup_def get_gamer_def objects_get_def get_pk_def db0_def req0_def)

text \<open>
  Claim C6. When the event is found and the add (for \<open>POST\<close>) or the remove (for
  \<open>DELETE\<close>) raises \<open>ex\<close>, the handler returns a response with status 200 whose
  body has the message of \<open>ex\<close> under \<open>message\<close>; the store is untouched.
\<close>

theorem signup_failure_200:
  assumes "get_gamer d request = Inr gamer"
    and "get_pk ''Event'' event_id pk (events d) = Inr event"
    and "http_method request = ''POST'' \<or> http_method request = ''DELETE''"
  shows "signup d (Some ex) request pk =
    (Returned (Response (JObj [(''message'', JStr (args0 ex))]) HTTP_200_OK), d)"
  using assms
  by (auto simp: signup_def signed_up_by_add_def signed_up_by_remove_def)

theorem signup_failure_200_witness:
  "signup db0 (Some (OtherError ''database is locked'')) (req0\<lparr>http_method := ''POST''\<rparr>) (PyStr ''1'')
     = (Returned \<lparr>status_code = PyInt 200,
                  body = Data (JObj [(''message'', JStr ''database is locked'')])\<rparr>, db0)
   \<and> signup db0 (Some (OtherError ''database is locked'')) (req0\<lparr>http_method := ''DELETE''\<rparr>) (PyStr ''1'')
     = (Returned \<lparr>status_code = PyInt 200,
                  body = Data (JObj [(''message'', JStr ''database is locked'')])\<rparr>, db0)"
  using signup_failure_200[where d = db0 and request = "req0\<lparr>http_method := ''POST''\<rparr>"
      and gamer = gamer5 and pk = "PyStr ''1''" and event = event1
      and ex = "OtherError ''database is locked''"]
    signup_failure_200[where d = db0 and request = "req0\<lparr>http_method := ''DELETE''\<rparr>"
      and gamer = gamer5 and pk = "PyStr ''1''" and event = event1
      and ex = "OtherError ''database is locked''"]
  by (simp add: Response_def HTTP_200_OK_def)

section \<open>\<^verbatim>\<open>destroy\<close>\<close>

text \<open>
  Claim C7. When the event is found and the delete goes through, \<open>destroy\<close>
  returns 204 and the event is gone; when no event has the key it returns 404
  with a message; any other exception of the lookup or of the delete gives 500
  with the message of that exception.
\<close>

theorem destroy_204_404_500:
  "(\<forall>event. get_pk ''Event'' event_id pk (events d) = Inr event \<longrightarrow>
      fst (destroy d None request pk) = Returned (Response (JObj []) HTTP_204_NO_CONTENT)
      \<and> events (snd (destroy d None request pk))
          = filter (\<lambda>r. event_id r \<noteq> event_id event) (events d)
      \<and> event \<notin> set (events (snd (destroy d None request pk))))
   \<and> (\<forall>k. to_pk pk = Inr k \<and> (\<forall>e\<in>set (events d). event_id e \<noteq> k) \<longrightarrow>
      destroy d fault request pk =
        (Returned (Response (JObj [(''message'', JStr ''Event matching query does not exist.'')])
                     HTTP_404_NOT_FOUND), d))
   \<and> (\<forall>ex. ex \<noteq> DoesNotExist ''Event''
        \<and> (get_pk ''Event'' event_id pk (events d) = Inl ex
            \<or> (\<exists>event. get_pk ''Event'' event_id pk (events d) = Inr event) \<and> fault = Some ex) \<longrightarrow>
      destroy d fault request pk =
        (Returned (Response (JObj [(''message'', JStr (args0 ex))])
                     HTTP_500_INTERNAL_SERVER_ERROR), d))"
proof (intro conjI allI impI)
  fix event
  assume a: "get_pk ''Event'' event_id pk (events d) = Inr event"
  show "fst (destroy d None request pk) = Returned (Response (JObj []) HTTP_204_NO_CONTENT)"
    using a by (simp add: destroy_def and_then_def delete_event_def)
  show e: "events (snd (destroy d None request pk))
      = filter (\<lambda>r. event_id r \<noteq> event_id event) (events d)"
    using a by (simp add: destroy_def and_then_def delete_event_def)
  show "event \<notin> set (events (snd (destroy d None request pk)))"
    by (simp add: e)
next
  fix k
  assume "to_pk pk = Inr k \<and> (\<forall>e\<in>set (events d). event_id e \<noteq> k)"
  then have "get_pk ''Event'' event_id pk (events d) = Inl (DoesNotExist ''Event'')"
    by (simp add: get_pk_missing)
  then show "destroy d fault request pk =
      (Returned (Response (JObj [(''message'', JStr ''Event matching query does not exist.'')])
                   HTTP_404_NOT_FOUND), d)"
    by (simp add: destroy_def and_then_def)
next
  fix ex
  assume "ex \<noteq> DoesNotExist ''Event''
        \<and> (get_pk ''Event'' event_id pk (events d) = Inl ex
            \<or> (\<exists>event. get_pk ''Event'' event_id pk (events d) = Inr event) \<and> fault = Some ex)"
  then show "destroy d fault request pk =
      (Returned (Response (JObj [(''message'', JStr (args0 ex))])
                   HTTP_500_INTERNAL_SERVER_ERROR), d)"
    by (auto simp: destroy_def and_then_def delete_event_def)
qed

theorem destroy_204_404_500_witness:
  "fst (destroy db0 None req0 (PyStr ''1'')) = Returned \<lparr>status_code = PyInt 204, body = Data (JObj [])\<rparr>
   \<and> events (snd (destroy db0 None req0 (PyStr ''1''))) = [event2]
   \<and> destroy db0 None req0 (PyStr ''999'')
     = (Returned \<lparr>status_code = PyInt 404,
          body = Data (JObj [(''message'', JStr ''Event matching query does not exist.'')])\<rparr>, db0)
   \<and> destroy db0 (Some (OtherError ''database is locked'')) req0 (PyStr ''1'')
     = (Returned \<lparr>status_code = PyInt 500,
          body = Data (JObj [(''message'', JStr ''database is locked'')])\<rparr>, db0)"
proof -
  note t = destroy_204_404_500[where d = db0 and request = req0]
  have a: "fst (destroy db0 None req0 (PyStr ''1''))
        = Returned \<lparr>status_code = PyInt 204, body = Data (JObj [])\<rparr>
      \<and> events (snd (destroy db0 None req0 (PyStr ''1''))) = [event2]"
    using t[where pk = "PyStr ''1''" and fault = None]
    by (simp add: Response_def HTTP_204_NO_CONTENT_def) (simp add: db0_def event1_def event2_def)
  have b: "destroy db0 None req0 (PyStr ''999'')
     = (Returned \<lparr>status_code = PyInt 404,
          body = Data (JObj [(''message'', JStr ''Event matching query does not exist.'')])\<rparr>, db0)"
    using t[where pk = "PyStr ''999''" and fault = None]
    by (simp add: Response_def HTTP_404_NOT_FOUND_def db0_def)
  have c: "destroy db0 (Some (OtherError ''database is locked'')) req0 (PyStr ''1'')
     = (Returned \<lparr>status_code = PyInt 500,
          body = Data (JObj [(''message'', JStr ''database is locked'')])\<rparr>, db0)"
    using t[where pk = "PyStr ''1''" and fault = "Some (OtherError ''database is locked'')"]
    by (simp add: Response_def HTTP_500_INTERNAL_SERVER_ERROR_def)
  from a b c show ?thesis by simp
qed

section \<open>\<^verbatim>\<open>retrieve\<close>\<close>

text \<open>
  Claim C8. When the lookup and the serializer succeed, \<open>retrieve\<close> returns the
  serialized event with status 200. Every exception of the lookup, not-found
  and several-rows included, gives \<^verbatim>\<open>HttpResponseServerError\<close>: status 500 with
  the text of the exception. The status is 200 or 500, never 404, and the store
  is untouched.
\<close>

theorem retrieve_200_or_500:
  "(\<forall>event j. get_pk ''Event'' event_id pk (events d) = Inr event
        \<and> EventSerializer d \<lparr>row = event, joined = None\<rparr> = Inr j \<longrightarrow>
      retrieve d request pk = (Returned (Response j HTTP_200_OK), d))
   \<and> (\<forall>ex. get_pk ''Event'' event_id pk (events d) = Inl ex \<longrightarrow>
      retrieve d request pk = (Returned (HttpResponseServerError ex), d))
   \<and> (\<forall>k. to_pk pk = Inr k \<and> (\<forall>e\<in>set (events d). event_id e \<noteq> k) \<longrightarrow>
      retrieve d request pk = (Returned (HttpResponseServerError (DoesNotExist ''Event'')), d))
   \<and> (\<forall>k e e' rest. to_pk pk = Inr k \<and> filter (\<lambda>r. event_id r = k) (events d) = e # e' # rest \<longrightarrow>
      retrieve d request pk =
        (Returned (HttpResponseServerError (MultipleObjectsReturned ''Event'' (Suc (Suc (length rest))))), d))
   \<and> (\<exists>r. retrieve d request pk = (Returned r, d)
        \<and> (status_code r = HTTP_200_OK \<or> status_code r = HTTP_500_INTERNAL_SERVER_ERROR)
        \<and> status_code r \<noteq> HTTP_404_NOT_FOUND)"
proof (intro conjI allI impI)
  fix event j
  assume "get_pk ''Event'' event_id pk (events d) = Inr event
        \<and> EventSerializer d \<lparr>row = event, joined = None\<rparr> = Inr j"
  then show "retrieve d request pk = (Returned (Response j HTTP_200_OK), d)"
    by (simp add: retrieve_def and_then_def)
next
  fix ex
  assume "get_pk ''Event'' event_id pk (events d) = Inl ex"
  then show "retrieve d request pk = (Returned (HttpResponseServerError ex), d)"
    by (simp add: retrieve_def and_then_def)
next
  fix k
  assume "to_pk pk = Inr k \<and> (\<forall>e\<in>set (events d). event_id e \<noteq> k)"
  then have "get_pk ''Event'' event_id pk (events d) = Inl (DoesNotExist ''Event'')"
    by (simp add: get_pk_missing)
  then show "retrieve d request pk = (Returned (HttpResponseServerError (DoesNotExist ''Event'')), d)"
    by (simp add: retrieve_def and_then_def)
next
  fix k e e' rest
  assume "to_pk pk = Inr k \<and> filter (\<lambda>r. event_id r = k) (events d) = e # e' # rest"
  then have "get_pk ''Event'' event_id pk (events d)
      = Inl (MultipleObjectsReturned ''Event'' (Suc (Suc (length rest))))"
    by (simp add: get_pk_def objects_get_def)
  then show "retrieve d request pk =
        (Returned (HttpResponseServerError (MultipleObjectsReturned ''Event'' (Suc (Suc (length rest))))), d)"
    by (simp add: retrieve_def and_then_def)
next
  show "\<exists>r. retrieve d request pk = (Returned r, d)
        \<and> (status_code r = HTTP_200_OK \<or> status_code r = HTTP_500_INTERNAL_SERVER_ERROR)
        \<and> status_code r \<noteq> HTTP_404_NOT_FOUND"
    by (simp add: retrieve_def Response_def HttpResponseServerError_def HTTP_200_OK_def
        HTTP_500_INTERNAL_SERVER_ERROR_def HTTP_404_NOT_FOUND_def split: sum.splits)
qed

theorem retrieve_200_or_500_witness:
  "(\<exists>j. retrieve db0 req0 (PyStr ''1'') = (Returned \<lparr>status_code = PyInt 200, body = Data j\<rparr>, db0)
        \<and> field ''id'' j = Some (JInt 1) \<and> field ''name'' j = Some (JStr ''Trivia Night''))
   \<and> retrieve db0 req0 (PyStr ''999'')
     = (Returned \<lparr>status_code = PyInt 500, body = Content ''Event matching query does not exist.''\<rparr>,
        db0)
   \<and> (\<exists>r. retrieve db0 req0 (PyStr ''abc'') = (Returned r, db0) \<and> status_code r = PyInt 500)"
proof -
  note t = retrieve_200_or_500[where d = db0 and request = req0]
  obtain j where j: "EventSerializer db0 \<lparr>row = event1, joined = None\<rparr> = Inr j"
    by (simp add: EventSerializer_def EventGamerSerializer_def and_then_def get_pk_def
        objects_get_def db0_def event1_def)
  then have f: "field ''id'' j = Some (JInt 1) \<and> field ''name'' j = Some (JStr ''Trivia Night'')"
    by (auto simp: EventSerializer_def and_then_def joined_entry_def event1_def split: sum.splits)
  have a: "retrieve db0 req0 (PyStr ''1'') = (Returned \<lparr>status_code = PyInt 200, body = Data j\<rparr>, db0)"
    using t[where pk = "PyStr ''1''"] j
    by (simp add: Response_def HTTP_200_OK_def)
  have b: "retrieve db0 req0 (PyStr ''999'')
     = (Returned \<lparr>status_code = PyInt 500, body = Content ''Event matching query does not exist.''\<rparr>,
        db0)"
    using t[where pk = "PyStr ''999''"]
    by (simp add: HttpResponseServerError_def HTTP_500_INTERNAL_SERVER_ERROR_def db0_def)
  have c: "\<exists>r. retrieve db0 req0 (PyStr ''abc'') = (Returned r, db0) \<and> status_code r = PyInt 500"
    using t[where pk = "PyStr ''abc''"]
    by (simp add: get_pk_def HttpResponseServerError_def HTTP_500_INTERNAL_SERVER_ERROR_def)
  from a b c f show ?thesis by blast
qed

section \<open>\<^verbatim>\<open>list\<close>\<close>

lemma EventSerializer_fields:
  "EventSerializer d i = Inr j \<Longrightarrow>
   field ''id'' j = Some (JInt (event_id (row i)))
   \<and> field ''joined'' j = map_option JBool (joined i)"
  by (auto simp: EventSerializer_def and_then_def joined_entry_def split: sum.splits option.splits)

lemma serialize_many_fields:
  "serialize_many d xs = Inr js \<Longrightarrow>
   map (field ''id'') js = map (\<lambda>i. Some (JInt (event_id (row i)))) xs
   \<and> map (field ''joined'') js = map (\<lambda>i. map_option JBool (joined i)) xs"
proof (induction xs arbitrary: js)
  case Nil
  then show ?case by simp
next
  case (Cons i rest)
  from Cons.prems obtain j js' where
    j: "EventSerializer d i = Inr j" and js': "serialize_many d rest = Inr js'" and e: "js = j # js'"
    by (auto simp: and_then_def split: sum.splits)
  from Cons.IH[OF js'] EventSerializer_fields[OF j] e show ?case by simp
qed

text \<open>The two list requests on the small store.\<close>

lemma db0_member: "gamer_in gamer5 (signed_up_by db0 event1)"
  by (simp add: gamer_in_def signed_up_by_def db0_def event1_def gamer5_def)

lemma list_game3_returns: "\<exists>r. list_events db0 req_list_game3 = (Returned r, db0)"
  by (simp add: list_events_def req_list_game3_def filter_game_def and_then_def fetch_def
      EventSerializer_def EventGamerSerializer_def get_pk_def objects_get_def db0_def
      get_gamer_def req0_def)

lemma list_all_returns: "\<exists>r. list_events db0 req0 = (Returned r, db0)"
  by (simp add: list_events_def and_then_def fetch_def set_joined_def req0_def
      EventSerializer_def EventGamerSerializer_def get_pk_def objects_get_def db0_def
      get_gamer_def)

text \<open>
  Claim C3. The claim says that a list request with \<open>gameId=X\<close> returns exactly
  the events of game \<open>X\<close>, each with its \<open>joined\<close> field. The first half holds:
  the body has the events whose game has the key, in the order of the table.
  The second does not: the filter is a new query, its instances never went
  through the loop that assigns \<open>joined\<close>, and no representation of the body
  has a \<open>joined\<close> entry.
\<close>

theorem list_filter_exact_without_joined:
  assumes "get_gamer d request = Inr gamer"
    and "query_params request ''gameId'' = Some g"
    and "to_pk (PyStr g) = Inr k"
    and "list_events d request = (Returned r, d')"
  shows "\<exists>js. r = Response (JArr js) HTTP_200_OK
    \<and> map (field ''id'') js
        = map (\<lambda>e. Some (JInt (event_id e))) (filter (\<lambda>e. event_game e = k) (events d))
    \<and> map (field ''joined'') js = map (\<lambda>e. None) (filter (\<lambda>e. event_game e = k) (events d))"
proof -
  let ?rows = "filter (\<lambda>e. event_game e = k) (events d)"
  from assms obtain js where js: "serialize_many d (fetch ?rows) = Inr js"
    and r: "r = Response (JArr js) HTTP_200_OK"
    by (auto simp: list_events_def filter_game_def and_then_def Let_def split: sum.splits)
  from serialize_many_fields[OF js]
  have "map (field ''id'') js = map (\<lambda>e. Some (JInt (event_id e))) ?rows
      \<and> map (field ''joined'') js = map (\<lambda>e. None) ?rows"
    by (simp add: fetch_def comp_def)
  with r show ?thesis by blast
qed

theorem list_filter_exact_without_joined_witness:
  "query_params req_list_game3 ''gameId'' = Some ''3''
   \<and> gamer_in gamer5 (signed_up_by db0 event1)
   \<and> (\<exists>js. fst (list_events db0 req_list_game3) = Returned (Response (JArr js) HTTP_200_OK)
          \<and> map (field ''id'') js = [Some (JInt 1)]
          \<and> map (field ''joined'') js = [None])"
proof -
  have h2: "query_params req_list_game3 ''gameId'' = Some ''3''"
    by (simp add: req_list_game3_def req0_def)
  have h1: "get_gamer db0 req_list_game3 = Inr gamer5"
    by (simp add: req_list_game3_def)
  have h3: "to_pk (PyStr ''3'') = Inr 3" by simp
  from list_game3_returns obtain r where h4: "list_events db0 req_list_game3 = (Returned r, db0)" ..
  from list_filter_exact_without_joined[OF h1 h2 h3 h4] h4 h2 db0_member
  show ?thesis by (auto simp: db0_def)
qed

text \<open>
  Claim C4. The claim says that \<open>joined\<close> of every event of the list response
  tells whether the requester's gamer is in the sign-up set of the event. That
  holds for a request without \<open>gameId\<close>. With \<open>gameId\<close> no event of the response
  has a \<open>joined\<close> entry, whether the gamer signed up or not.
\<close>

theorem list_joined_only_without_filter:
  assumes "get_gamer d request = Inr gamer"
    and "list_events d request = (Returned r, d')"
  shows "\<exists>js. r = Response (JArr js) HTTP_200_OK
    \<and> (query_params request ''gameId'' = None \<longrightarrow>
          map (field ''joined'') js
            = map (\<lambda>e. Some (JBool (gamer_in gamer (signed_up_by d e)))) (events d))
    \<and> (query_params request ''gameId'' \<noteq> None \<longrightarrow>
          (\<forall>j\<in>set js. field ''joined'' j = None))"
proof (cases "query_params request ''gameId''")
  case None
  with assms obtain js where
    js: "serialize_many d (set_joined d gamer (fetch (events d))) = Inr js"
    and r: "r = Response (JArr js) HTTP_200_OK"
    by (auto simp: list_events_def and_then_def Let_def split: sum.splits)
  from serialize_many_fields[OF js]
  have "map (field ''joined'') js
      = map (\<lambda>e. Some (JBool (gamer_in gamer (signed_up_by d e)))) (events d)"
    by (simp add: fetch_def set_joined_def comp_def)
  with r None show ?thesis by auto
next
  case (Some g)
  with assms obtain js k where
    js: "serialize_many d (fetch (filter (\<lambda>e. event_game e = k) (events d))) = Inr js"
    and r: "r = Response (JArr js) HTTP_200_OK"
    by (auto simp: list_events_def filter_game_def and_then_def Let_def split: sum.splits)
  from serialize_many_fields[OF js]
  have "map (field ''joined'') js = map (\<lambda>e. None) (filter (\<lambda>e. event_game e = k) (events d))"
    by (simp add: fetch_def comp_def)
  then have "set (map (field ''joined'') js) \<subseteq> {None}"
    by auto
  then have "\<forall>j\<in>set js. field ''joined'' j = None"
    by auto
  with r Some show ?thesis by auto
qed

theorem list_joined_only_without_filter_witness:
  "(\<exists>js. fst (list_events db0 req0) = Returned (Response (JArr js) HTTP_200_OK)
        \<and> map (field ''joined'') js = [Some (JBool True), Some (JBool False)])
   \<and> gamer_in gamer5 (signed_up_by db0 event1)
   \<and> (\<exists>js. fst (list_events db0 req_list_game3) = Returned (Response (JArr js) HTTP_200_OK)
          \<and> map (field ''joined'') js = [None])"
proof -
  have g0: "get_gamer db0 req0 = Inr gamer5"
    using db0_gamer_q[of Map.empty] by (simp add: req0_def)
  have q0: "query_params req0 ''gameId'' = None" by (simp add: req0_def)
  from list_all_returns obtain r where r: "list_events db0 req0 = (Returned r, db0)" ..
  have a: "\<exists>js. fst (list_events db0 req0) = Returned (Response (JArr js) HTTP_200_OK)
        \<and> map (field ''joined'') js = [Some (JBool True), Some (JBool False)]"
    using list_joined_only_without_filter[OF g0 r] r q0
    by (auto simp: db0_def gamer_in_def signed_up_by_def gamer5_def)
  have g3: "get_gamer db0 req_list_game3 = Inr gamer5"
    by (simp add: req_list_game3_def)
  have q3: "query_params req_list_game3 ''gameId'' = Some ''3''"
    by (simp add: req_list_game3_def req0_def)
  from list_game3_returns obtain r' where r': "list_events db0 req_list_game3 = (Returned r', db0)" ..
  from list_joined_only_without_filter[OF g3 r'] obtain js where
    js: "r' = Response (JArr js) HTTP_200_OK" "\<forall>j\<in>set js. field ''joined'' j = None"
    using q3 by auto
  have "length js = 1"
    using r' js(1)
    by (auto simp: list_events_def req_list_game3_def filter_game_def and_then_def fetch_def
      EventSerializer_def EventGamerSerializer_def get_pk_def objects_get_def db0_def Response_def req0_def
      get_gamer_def)
  then obtain j where "js = [j]"
    by (cases js) auto
  with js r' have b: "\<exists>js. fst (list_events db0 req_list_game3) = Returned (Response (JArr js) HTTP_200_OK)
          \<and> map (field ''joined'') js = [None]"
    by auto
  from a b db0_member show ?thesis by simp
qed

end
